theory Spec2Isabelle
  imports Complex_Main "HOL-Library.Word"
begin

unbundle bit_operations_syntax

section \<open>The AK09916 magnetometer sub-driver of the ICM20948\<close>

text \<open>
  A shallow embedding of \<^verbatim>\<open>src/drivers/imu/icm20948/ICM20948_mag.cpp\<close>.
  The driver talks to three collaborators: the parent ICM20948 driver (register writes,
  read-modify-writes and the bus transport), the clock (\<^verbatim>\<open>px4_usleep\<close>) and the
  magnetometer sink (\<^verbatim>\<open>_px4_mag\<close>). Every call to one of them is recorded, in
  program order, as an event of a trace; what the bus transport delivers on a read is an
  input of the model.
\<close>

subsection \<open>Machine types\<close>

type_synonym u8 = "8 word"
type_synonym i16 = "16 word"
type_synonym unsigned = "32 word"
type_synonym hrt_abstime = "64 word"

text \<open>
  The only \<^verbatim>\<open>float\<close> arithmetic of the file is
  \<^verbatim>\<open>((float)(response[i] - 128) / 256.0f) + 1.0f\<close> on a byte. The difference lies in
  \<open>[-128, 127]\<close>, the division by a power of two is exact, and the sum is a multiple of
  \<open>1 / 256\<close> in \<open>[1 / 2, 3 / 2)\<close>: every intermediate value is a binary32 number, so no
  operation rounds and the arithmetic is that of the rationals.
\<close>

type_synonym float = rat

subsection \<open>Constants of the headers\<close>

text \<open>
  The register addresses, bit masks and mode values are macros of the headers
  \<^verbatim>\<open>ICM20948.hpp\<close> and \<^verbatim>\<open>ICM20948_mag.hpp\<close>. The driver file does not fix
  their values, so they are parameters of the model, and a theorem that needs two of them
  to differ says so. Register numbers keep the type \<^verbatim>\<open>unsigned\<close> they are passed
  with; masks and values are the bytes that reach a \<^verbatim>\<open>uint8_t\<close> parameter.
\<close>

record macros =
  ICMREG_20948_I2C_SLV0_CTRL :: unsigned
  ICMREG_20948_I2C_SLV0_DO :: unsigned
  ICMREG_20948_I2C_SLV0_ADDR :: unsigned
  ICMREG_20948_I2C_SLV0_REG :: unsigned
  ICMREG_20948_EXT_SLV_SENS_DATA_00 :: unsigned
  ICMREG_20948_USER_CTRL :: unsigned
  ICMREG_20948_I2C_MST_CTRL :: unsigned
  BIT_I2C_SLV0_EN :: u8
  BIT_I2C_READ_FLAG :: u8
  BIT_I2C_MST_EN :: u8
  BIT_I2C_MST_RST :: u8
  BIT_I2C_MST_P_NSR :: u8
  ICM_BITS_I2C_MST_CLOCK_400HZ :: u8
  AK09916_I2C_ADDR :: u8
  AK09916_DEVICE_ID :: u8
  AK09916REG_WIA :: unsigned
  AK09916REG_ST1 :: unsigned
  AK09916REG_CNTL1 :: unsigned
  AK09916REG_CNTL2 :: unsigned
  AK09916REG_CNTL3 :: unsigned
  AK09916REG_ASAX :: unsigned
  AK09916_RESET :: u8
  AK09916_CNTL2_CONTINOUS_MODE_100HZ :: u8
  AK09916_FUZE_MODE :: u8
  AK09916_16BIT_ADC :: u8
  AK09916_POWERDOWN_MODE :: u8
  AK09916_ST1_DRDY :: u8
  sizeof_ak09916_regs :: u8

text \<open>
  One frame of the magnetometer's data window (\<^verbatim>\<open>struct ak09916_regs\<close>): the two
  status bytes and the three signed 16-bit axes.
\<close>

record ak09916_regs =
  st1 :: u8
  x :: i16
  y :: i16
  z :: i16
  st2 :: u8

subsection \<open>Events and the world\<close>

text \<open>
  One constructor per call that leaves the file. The arguments of \<open>Update\<close> are the
  values of the argument expressions at the call site: \<^verbatim>\<open>data.y\<close>,
  \<^verbatim>\<open>data.x\<close> and \<^verbatim>\<open>-data.z\<close> are of type \<^verbatim>\<open>int\<close> after integer
  promotion, so the negation cannot overflow.
\<close>

datatype event =
    Parent_write_reg unsigned u8
  | Parent_modify_reg unsigned u8 u8
  | Parent_modify_checked_reg unsigned u8 u8
  | Parent_interface_read unsigned nat
  | Interface_read unsigned nat
  | Px4_usleep nat
  | PX4_WARN u8 int
  | PX4_ERR
  | Set_external bool
  | Set_temperature float
  | Update hrt_abstime int int int
  | Set_sensitivity float float float

text \<open>
  The world: the trace so far, the bytes the bus transport delivers (the \<open>n\<close>-th byte
  read since start is \<open>rx n\<close>; \<open>rxpos\<close> counts the bytes consumed), the two
  fields of the parent that \<^verbatim>\<open>_measure\<close> reads, and the three performance counters
  of the driver. The constructor allocates the counters and the destructor frees them; no
  function of the file counts on them.
\<close>

record world =
  trace :: "event list"
  rx :: "nat \<Rightarrow> u8"
  rxpos :: nat
  parent_is_external :: bool
  parent_last_temperature :: float
  mag_overruns :: nat
  mag_overflows :: nat
  mag_errors :: nat

datatype error = EIO

definition emit :: "event \<Rightarrow> world \<Rightarrow> world" where
  "emit e w = w\<lparr>trace := trace w @ [e]\<rparr>"

definition parent_write_reg :: "unsigned \<Rightarrow> u8 \<Rightarrow> world \<Rightarrow> world" where
  "parent_write_reg reg val = emit (Parent_write_reg reg val)"

definition parent_modify_reg :: "unsigned \<Rightarrow> u8 \<Rightarrow> u8 \<Rightarrow> world \<Rightarrow> world" where
  "parent_modify_reg reg clearbits setbits = emit (Parent_modify_reg reg clearbits setbits)"

definition parent_modify_checked_reg :: "unsigned \<Rightarrow> u8 \<Rightarrow> u8 \<Rightarrow> world \<Rightarrow> world" where
  "parent_modify_checked_reg reg clearbits setbits =
     emit (Parent_modify_checked_reg reg clearbits setbits)"

definition px4_usleep :: "nat \<Rightarrow> world \<Rightarrow> world" where
  "px4_usleep usec = emit (Px4_usleep usec)"

text \<open>
  A transport read of \<open>count\<close> bytes delivers the next \<open>count\<close> bytes of \<open>rx\<close>.
\<close>

definition deliver :: "event \<Rightarrow> nat \<Rightarrow> world \<Rightarrow> u8 list \<times> world" where
  "deliver e count w =
     (map (\<lambda>i. rx w (rxpos w + i)) [0..<count],
      w\<lparr>trace := trace w @ [e], rxpos := rxpos w + count\<rparr>)"

definition parent_interface_read :: "unsigned \<Rightarrow> nat \<Rightarrow> world \<Rightarrow> u8 list \<times> world" where
  "parent_interface_read reg count = deliver (Parent_interface_read reg count) count"

definition interface_read :: "unsigned \<Rightarrow> nat \<Rightarrow> world \<Rightarrow> u8 list \<times> world" where
  "interface_read reg count = deliver (Interface_read reg count) count"

subsection \<open>The driver\<close>

text \<open>\<^verbatim>\<open>ICM20948_mag::_measure\<close>.\<close>

definition measure_mag :: "macros \<Rightarrow> hrt_abstime \<Rightarrow> ak09916_regs \<Rightarrow> world \<Rightarrow> world" where
  "measure_mag c timestamp_sample data w =
     (if st1 data AND AK09916_ST1_DRDY c = 0 then w
      else
        let w1 = emit (Set_external (parent_is_external w)) w;
            w2 = emit (Set_temperature (parent_last_temperature w1)) w1
        in emit (Update timestamp_sample (sint (y data)) (sint (x data)) (- sint (z data))) w2)"

text \<open>
  \<^verbatim>\<open>ICM20948_mag::set_passthrough\<close>. The optional pointer \<^verbatim>\<open>out\<close> is an
  \<open>option\<close>.
\<close>

definition set_passthrough :: "macros \<Rightarrow> u8 \<Rightarrow> u8 \<Rightarrow> u8 option \<Rightarrow> world \<Rightarrow> world" where
  "set_passthrough c reg sz out w =
     (let w1 = parent_write_reg (ICMREG_20948_I2C_SLV0_CTRL c) 0 w;
          (addr, w2) =
            (case out of
               Some v \<Rightarrow> (AK09916_I2C_ADDR c, parent_write_reg (ICMREG_20948_I2C_SLV0_DO c) v w1)
             | None \<Rightarrow> (AK09916_I2C_ADDR c OR BIT_I2C_READ_FLAG c, w1));
          w3 = parent_write_reg (ICMREG_20948_I2C_SLV0_ADDR c) addr w2;
          w4 = parent_write_reg (ICMREG_20948_I2C_SLV0_REG c) reg w3
      in parent_write_reg (ICMREG_20948_I2C_SLV0_CTRL c) (sz OR BIT_I2C_SLV0_EN c) w4)"

text \<open>
  \<^verbatim>\<open>ICM20948_mag::read_reg\<close>. The register number is converted to the
  \<^verbatim>\<open>uint8_t\<close> parameter of \<^verbatim>\<open>set_passthrough\<close>; \<^verbatim>\<open>buf\<close> starts at 0.
\<close>

definition read_reg :: "macros \<Rightarrow> unsigned \<Rightarrow> world \<Rightarrow> u8 \<times> world" where
  "read_reg c reg w =
     (let w1 = set_passthrough c (ucast reg) 1 None w;
          w2 = px4_usleep (25 + 25 * 1) w1;
          (bytes, w3) = parent_interface_read (ICMREG_20948_EXT_SLV_SENS_DATA_00 c) 1 w2;
          buf = (case bytes of [] \<Rightarrow> 0 | b # _ \<Rightarrow> b);
          w4 = parent_write_reg (ICMREG_20948_I2C_SLV0_CTRL c) 0 w3
      in (buf, w4))"

text \<open>\<^verbatim>\<open>ICM20948_mag::ak09916_check_id\<close>: the verdict and the identity read.\<close>

definition ak09916_check_id :: "macros \<Rightarrow> world \<Rightarrow> (bool \<times> u8) \<times> world" where
  "ak09916_check_id c w =
     (let (deviceid, w1) = read_reg c (AK09916REG_WIA c) w
      in ((AK09916_DEVICE_ID c = deviceid, deviceid), w1))"

text \<open>\<^verbatim>\<open>ICM20948_mag::write_reg\<close>.\<close>

definition write_reg :: "macros \<Rightarrow> unsigned \<Rightarrow> u8 \<Rightarrow> world \<Rightarrow> world" where
  "write_reg c reg val w =
     (let w1 = set_passthrough c (ucast reg) 1 (Some val) w;
          w2 = px4_usleep 50 w1
      in parent_write_reg (ICMREG_20948_I2C_SLV0_CTRL c) 0 w2)"

text \<open>
  The \<^verbatim>\<open>for\<close> loop of \<^verbatim>\<open>ak09916_read_adjustments\<close> over the bytes of
  \<^verbatim>\<open>response\<close>: \<open>None\<close> is the \<^verbatim>\<open>return false\<close> at the first byte that is
  \<open>0\<close> or \<open>0xff\<close>. The byte is promoted to \<^verbatim>\<open>int\<close> before 128 is subtracted.
\<close>

fun ak09916_ASA :: "u8 list \<Rightarrow> float list option" where
  "ak09916_ASA [] = Some []"
| "ak09916_ASA (r # rs) =
     (if 0 \<noteq> r \<and> 0xff \<noteq> r then
        (case ak09916_ASA rs of
           Some asa \<Rightarrow> Some ((of_int (uint r - 128) / 256 + 1) # asa)
         | None \<Rightarrow> None)
      else None)"

text \<open>\<^verbatim>\<open>ICM20948_mag::ak09916_read_adjustments\<close>.\<close>

definition ak09916_read_adjustments :: "macros \<Rightarrow> world \<Rightarrow> bool \<times> world" where
  "ak09916_read_adjustments c w =
     (let w1 = write_reg c (AK09916REG_CNTL1 c) (AK09916_FUZE_MODE c OR AK09916_16BIT_ADC c) w;
          w2 = px4_usleep 50 w1;
          (response, w3) = interface_read (AK09916REG_ASAX c) 3 w2;
          w4 = write_reg c (AK09916REG_CNTL1 c) (AK09916_POWERDOWN_MODE c) w3
      in case ak09916_ASA response of
           Some [a0, a1, a2] \<Rightarrow> (True, emit (Set_sensitivity a0 a1 a2) w4)
         | _ \<Rightarrow> (False, w4))"

text \<open>\<^verbatim>\<open>ICM20948_mag::ak09916_setup_master_i2c\<close>; it always returns \<^verbatim>\<open>OK\<close>.\<close>

definition ak09916_setup_master_i2c :: "macros \<Rightarrow> world \<Rightarrow> world" where
  "ak09916_setup_master_i2c c w =
     (let w1 = parent_modify_checked_reg (ICMREG_20948_USER_CTRL c) 0 (BIT_I2C_MST_EN c) w
      in parent_write_reg (ICMREG_20948_I2C_MST_CTRL c)
           (BIT_I2C_MST_P_NSR c OR ICM_BITS_I2C_MST_CLOCK_400HZ c) w1)"

text \<open>
  The \<^verbatim>\<open>do ... while (retries > 0)\<close> loop of \<^verbatim>\<open>ak09916_setup\<close>, entered with
  the current value of \<^verbatim>\<open>retries\<close>; it returns the value of \<^verbatim>\<open>retries\<close> at
  the exit, through \<^verbatim>\<open>break\<close> or through the loop condition.
\<close>

function ak09916_setup_loop :: "macros \<Rightarrow> int \<Rightarrow> world \<Rightarrow> int \<times> world" where
  "ak09916_setup_loop c retries w =
     (let w1 = ak09916_setup_master_i2c c w;
          w2 = write_reg c (AK09916REG_CNTL3 c) (AK09916_RESET c) w1;
          ((ok, devid), w3) = ak09916_check_id c w2
      in if ok then (retries, w3)
         else
           let retries' = retries - 1;
               w4 = emit (PX4_WARN devid retries') w3;
               w5 = parent_modify_reg (ICMREG_20948_USER_CTRL c) 0 (BIT_I2C_MST_RST c) w4;
               w6 = px4_usleep 200 w5
           in if retries' > 0 then ak09916_setup_loop c retries' w6 else (retries', w6))"
  by pat_completeness auto
termination
  by (relation "measure (\<lambda>(c, retries, w). nat retries)") auto

text \<open>\<^verbatim>\<open>ICM20948_mag::ak09916_setup\<close>: \<open>Inl EIO\<close> is \<^verbatim>\<open>return -EIO\<close>.\<close>

definition ak09916_setup :: "macros \<Rightarrow> world \<Rightarrow> (error + unit) \<times> world" where
  "ak09916_setup c w =
     (let (retries, w1) = ak09916_setup_loop c 20 w
      in if retries = 0 then
           let w2 = emit PX4_ERR w1;
               w3 = parent_modify_checked_reg (ICMREG_20948_USER_CTRL c) (BIT_I2C_MST_EN c) 0 w2;
               w4 = parent_write_reg (ICMREG_20948_I2C_MST_CTRL c) 0 w3
           in (Inl EIO, w4)
         else
           let w2 = write_reg c (AK09916REG_CNTL2 c) (AK09916_CNTL2_CONTINOUS_MODE_100HZ c) w1;
               w3 = set_passthrough c (ucast (AK09916REG_ST1 c)) (sizeof_ak09916_regs c) None w2
           in (Inr (), w3))"

text \<open>\<^verbatim>\<open>ICM20948_mag::ak09916_reset\<close>.\<close>

definition ak09916_reset :: "macros \<Rightarrow> world \<Rightarrow> (error + unit) \<times> world" where
  "ak09916_reset c w =
     (case ak09916_setup c w of
        (Inr _, w1) \<Rightarrow> ak09916_setup c (write_reg c (AK09916REG_CNTL3 c) (AK09916_RESET c) w1)
      | (Inl e, w1) \<Rightarrow> (Inl e, w1))"

declare ak09916_setup_loop.simps [simp del]

subsection \<open>The traces of the operations\<close>

text \<open>
  What each operation appends to the trace, written as a list. The lemmas of the next
  section show that the operations of the driver append exactly these lists.
\<close>

definition extend :: "event list \<Rightarrow> nat \<Rightarrow> world \<Rightarrow> world" where
  "extend es n w = w\<lparr>trace := trace w @ es, rxpos := rxpos w + n\<rparr>"

definition new_events :: "world \<Rightarrow> world \<Rightarrow> event list" where
  "new_events w w' = drop (length (trace w)) (trace w')"

definition set_passthrough_events :: "macros \<Rightarrow> u8 \<Rightarrow> u8 \<Rightarrow> u8 option \<Rightarrow> event list" where
  "set_passthrough_events c reg sz out =
     Parent_write_reg (ICMREG_20948_I2C_SLV0_CTRL c) 0 #
     (case out of Some v \<Rightarrow> [Parent_write_reg (ICMREG_20948_I2C_SLV0_DO c) v] | None \<Rightarrow> []) @
     [Parent_write_reg (ICMREG_20948_I2C_SLV0_ADDR c)
        (case out of
           Some v \<Rightarrow> AK09916_I2C_ADDR c
         | None \<Rightarrow> AK09916_I2C_ADDR c OR BIT_I2C_READ_FLAG c),
      Parent_write_reg (ICMREG_20948_I2C_SLV0_REG c) reg,
      Parent_write_reg (ICMREG_20948_I2C_SLV0_CTRL c) (sz OR BIT_I2C_SLV0_EN c)]"

definition write_reg_events :: "macros \<Rightarrow> unsigned \<Rightarrow> u8 \<Rightarrow> event list" where
  "write_reg_events c reg val =
     set_passthrough_events c (ucast reg) 1 (Some val) @
     [Px4_usleep 50, Parent_write_reg (ICMREG_20948_I2C_SLV0_CTRL c) 0]"

definition read_reg_events :: "macros \<Rightarrow> unsigned \<Rightarrow> event list" where
  "read_reg_events c reg =
     set_passthrough_events c (ucast reg) 1 None @
     [Px4_usleep 50, Parent_interface_read (ICMREG_20948_EXT_SLV_SENS_DATA_00 c) 1,
      Parent_write_reg (ICMREG_20948_I2C_SLV0_CTRL c) 0]"

text \<open>
  One pass through the loop body up to the identity check: master configuration, device
  reset, identity read.
\<close>

definition attempt_events :: "macros \<Rightarrow> event list" where
  "attempt_events c =
     [Parent_modify_checked_reg (ICMREG_20948_USER_CTRL c) 0 (BIT_I2C_MST_EN c),
      Parent_write_reg (ICMREG_20948_I2C_MST_CTRL c)
        (BIT_I2C_MST_P_NSR c OR ICM_BITS_I2C_MST_CLOCK_400HZ c)] @
     write_reg_events c (AK09916REG_CNTL3 c) (AK09916_RESET c) @
     read_reg_events c (AK09916REG_WIA c)"

definition recover_events :: "macros \<Rightarrow> u8 \<Rightarrow> int \<Rightarrow> event list" where
  "recover_events c devid retries =
     [PX4_WARN devid retries,
      Parent_modify_reg (ICMREG_20948_USER_CTRL c) 0 (BIT_I2C_MST_RST c),
      Px4_usleep 200]"

text \<open>
  \<open>n\<close> failing passes, entered with \<open>retries\<close> and reading the identity bytes
  \<open>f p\<close>, \<open>f (p + 1)\<close>, ...
\<close>

fun failed_events :: "macros \<Rightarrow> (nat \<Rightarrow> u8) \<Rightarrow> nat \<Rightarrow> int \<Rightarrow> nat \<Rightarrow> event list" where
  "failed_events c f p retries 0 = []"
| "failed_events c f p retries (Suc n) =
     attempt_events c @ recover_events c (f p) (retries - 1) @
     failed_events c f (Suc p) (retries - 1) n"

definition done_events :: "macros \<Rightarrow> event list" where
  "done_events c =
     write_reg_events c (AK09916REG_CNTL2 c) (AK09916_CNTL2_CONTINOUS_MODE_100HZ c) @
     set_passthrough_events c (ucast (AK09916REG_ST1 c)) (sizeof_ak09916_regs c) None"

definition disable_events :: "macros \<Rightarrow> event list" where
  "disable_events c =
     [PX4_ERR,
      Parent_modify_checked_reg (ICMREG_20948_USER_CTRL c) (BIT_I2C_MST_EN c) 0,
      Parent_write_reg (ICMREG_20948_I2C_MST_CTRL c) 0]"

definition adjustment_events :: "macros \<Rightarrow> event list" where
  "adjustment_events c =
     write_reg_events c (AK09916REG_CNTL1 c) (AK09916_FUZE_MODE c OR AK09916_16BIT_ADC c) @
     [Px4_usleep 50, Interface_read (AK09916REG_ASAX c) 3] @
     write_reg_events c (AK09916REG_CNTL1 c) (AK09916_POWERDOWN_MODE c)"

subsection \<open>Observations on a trace\<close>

text \<open>An identity-check attempt is seen in the trace as its one-byte read of the data window.\<close>

definition is_id_read :: "macros \<Rightarrow> event \<Rightarrow> bool" where
  "is_id_read c e \<longleftrightarrow> e = Parent_interface_read (ICMREG_20948_EXT_SLV_SENS_DATA_00 c) 1"

text \<open>A device reset points the bridge at the magnetometer's reset register.\<close>

definition is_device_reset :: "macros \<Rightarrow> event \<Rightarrow> bool" where
  "is_device_reset c e \<longleftrightarrow>
     e = Parent_write_reg (ICMREG_20948_I2C_SLV0_REG c) (ucast (AK09916REG_CNTL3 c))"

text \<open>
  A read-modify-write of the user-control register whose set mask
  (\<^verbatim>\<open>setbits\<close>, the last argument) holds the master-reset bit.
\<close>

fun is_master_reset :: "macros \<Rightarrow> event \<Rightarrow> bool" where
  "is_master_reset c (Parent_modify_reg reg clearbits setbits) =
     (reg = ICMREG_20948_USER_CTRL c \<and> setbits AND BIT_I2C_MST_RST c \<noteq> 0)"
| "is_master_reset c (Parent_modify_checked_reg reg clearbits setbits) =
     (reg = ICMREG_20948_USER_CTRL c \<and> setbits AND BIT_I2C_MST_RST c \<noteq> 0)"
| "is_master_reset c _ = False"

text \<open>
  An operation on the user-control register that clears the master-reset bit: a
  read-modify-write whose clear mask (\<^verbatim>\<open>clearbits\<close>, the middle argument) holds
  the bit, or a plain write of a value without it.
\<close>

fun clears_master_reset :: "macros \<Rightarrow> event \<Rightarrow> bool" where
  "clears_master_reset c (Parent_modify_reg reg clearbits setbits) =
     (reg = ICMREG_20948_USER_CTRL c \<and> clearbits AND BIT_I2C_MST_RST c \<noteq> 0)"
| "clears_master_reset c (Parent_modify_checked_reg reg clearbits setbits) =
     (reg = ICMREG_20948_USER_CTRL c \<and> clearbits AND BIT_I2C_MST_RST c \<noteq> 0)"
| "clears_master_reset c (Parent_write_reg reg val) =
     (reg = ICMREG_20948_USER_CTRL c \<and> val AND BIT_I2C_MST_RST c = 0)"
| "clears_master_reset c _ = False"

text \<open>The two calls of \<^verbatim>\<open>ak09916_setup_master_i2c\<close>.\<close>

definition is_master_enable :: "macros \<Rightarrow> event \<Rightarrow> bool" where
  "is_master_enable c e \<longleftrightarrow>
     e = Parent_modify_checked_reg (ICMREG_20948_USER_CTRL c) 0 (BIT_I2C_MST_EN c)"

definition is_master_clock :: "macros \<Rightarrow> event \<Rightarrow> bool" where
  "is_master_clock c e \<longleftrightarrow>
     e = Parent_write_reg (ICMREG_20948_I2C_MST_CTRL c)
           (BIT_I2C_MST_P_NSR c OR ICM_BITS_I2C_MST_CLOCK_400HZ c)"

fun is_update :: "event \<Rightarrow> bool" where
  "is_update (Update t a b d) = True"
| "is_update _ = False"

fun is_set_sensitivity :: "event \<Rightarrow> bool" where
  "is_set_sensitivity (Set_sensitivity a b d) = True"
| "is_set_sensitivity _ = False"

text \<open>The events after the last one that satisfies \<open>P\<close>.\<close>

definition after_last :: "('a \<Rightarrow> bool) \<Rightarrow> 'a list \<Rightarrow> 'a list" where
  "after_last P es = rev (takeWhile (\<lambda>e. \<not> P e) (rev es))"

text \<open>
  The proxy registers as a monitor: \<open>en\<close> is the enable flag of the control register
  after the writes seen so far; a write to the output, address or register proxy while
  the flag is set is a violation.
\<close>

fun bridge_safe :: "macros \<Rightarrow> bool \<Rightarrow> event list \<Rightarrow> bool" where
  "bridge_safe c en [] = True"
| "bridge_safe c en (Parent_write_reg reg val # es) =
     (if reg = ICMREG_20948_I2C_SLV0_CTRL c
      then bridge_safe c (val AND BIT_I2C_SLV0_EN c \<noteq> 0) es
      else if reg = ICMREG_20948_I2C_SLV0_DO c \<or> reg = ICMREG_20948_I2C_SLV0_ADDR c
             \<or> reg = ICMREG_20948_I2C_SLV0_REG c
      then \<not> en \<and> bridge_safe c en es
      else bridge_safe c en es)"
| "bridge_safe c en (e # es) = bridge_safe c en es"

text \<open>A sequence of calls of \<^verbatim>\<open>set_passthrough\<close>, each with its three arguments.\<close>

fun set_passthrough_calls :: "macros \<Rightarrow> (u8 \<times> u8 \<times> u8 option) list \<Rightarrow> world \<Rightarrow> world" where
  "set_passthrough_calls c [] w = w"
| "set_passthrough_calls c ((reg, sz, out) # calls) w =
     set_passthrough_calls c calls (set_passthrough c reg sz out w)"

text \<open>The conversion of a calibration byte as the specification writes it.\<close>

definition sensitivity :: "u8 \<Rightarrow> rat" where
  "sensitivity v = (of_nat (unat v) - 128) / 256 + 1"

subsection \<open>A sample instance\<close>

text \<open>
  A sample assignment of the constants, in the manner of the register maps of the two
  chips (the bank of a host register in bits 8 and 9), to instantiate the theorems, and
  three worlds: one where the bus always delivers 0, one where it delivers the identity
  on the second read, and one that delivers the calibration bytes 128, 1, 254.
\<close>

definition sample_macros :: macros where
  "sample_macros = \<lparr>
     ICMREG_20948_I2C_SLV0_CTRL = 0x305,
     ICMREG_20948_I2C_SLV0_DO = 0x306,
     ICMREG_20948_I2C_SLV0_ADDR = 0x303,
     ICMREG_20948_I2C_SLV0_REG = 0x304,
     ICMREG_20948_EXT_SLV_SENS_DATA_00 = 0x3B,
     ICMREG_20948_USER_CTRL = 0x03,
     ICMREG_20948_I2C_MST_CTRL = 0x301,
     BIT_I2C_SLV0_EN = 0x80,
     BIT_I2C_READ_FLAG = 0x80,
     BIT_I2C_MST_EN = 0x20,
     BIT_I2C_MST_RST = 0x02,
     BIT_I2C_MST_P_NSR = 0x10,
     ICM_BITS_I2C_MST_CLOCK_400HZ = 0x07,
     AK09916_I2C_ADDR = 0x0C,
     AK09916_DEVICE_ID = 0x09,
     AK09916REG_WIA = 0x01,
     AK09916REG_ST1 = 0x10,
     AK09916REG_CNTL1 = 0x30,
     AK09916REG_CNTL2 = 0x31,
     AK09916REG_CNTL3 = 0x32,
     AK09916REG_ASAX = 0x60,
     AK09916_RESET = 0x01,
     AK09916_CNTL2_CONTINOUS_MODE_100HZ = 0x08,
     AK09916_FUZE_MODE = 0x0F,
     AK09916_16BIT_ADC = 0x10,
     AK09916_POWERDOWN_MODE = 0x00,
     AK09916_ST1_DRDY = 0x01,
     sizeof_ak09916_regs = 8 \<rparr>"

definition silent_world :: world where
  "silent_world = \<lparr> trace = [], rx = (\<lambda>n. 0), rxpos = 0,
     parent_is_external = False, parent_last_temperature = 25,
     mag_overruns = 0, mag_overflows = 0, mag_errors = 0 \<rparr>"

definition second_try_world :: world where
  "second_try_world = \<lparr> trace = [], rx = (\<lambda>n. if n = 1 then 0x09 else 0), rxpos = 0,
     parent_is_external = False, parent_last_temperature = 25,
     mag_overruns = 0, mag_overflows = 0, mag_errors = 0 \<rparr>"

definition fuse_world :: world where
  "fuse_world = \<lparr> trace = [], rx = (\<lambda>n. if n = 0 then 128 else if n = 1 then 1 else 254),
     rxpos = 0, parent_is_external = False, parent_last_temperature = 25,
     mag_overruns = 0, mag_overflows = 0, mag_errors = 0 \<rparr>"

definition sample_frame :: ak09916_regs where
  "sample_frame = \<lparr> st1 = 1, x = 10, y = 20, z = 30, st2 = 0 \<rparr>"

section \<open>The operations append their traces\<close>

lemma extend_extend: "extend es n (extend es' n' w) = extend (es' @ es) (n' + n) w"
  by (simp add: extend_def add.assoc)

lemma extend_simps [simp]:
  "trace (extend es n w) = trace w @ es"
  "rxpos (extend es n w) = rxpos w + n"
  "rx (extend es n w) = rx w"
  "parent_is_external (extend es n w) = parent_is_external w"
  "parent_last_temperature (extend es n w) = parent_last_temperature w"
  by (simp_all add: extend_def)

lemma extend_nothing [simp]: "extend [] 0 w = w"
  by (simp add: extend_def)

lemma new_events_extend [simp]: "new_events w (extend es n w) = es"
  by (simp add: new_events_def)

lemma emit_extend: "emit e w = extend [e] 0 w"
  by (simp add: emit_def extend_def)

lemma deliver_extend:
  "deliver e count w = (map (\<lambda>i. rx w (rxpos w + i)) [0..<count], extend [e] count w)"
  by (simp add: deliver_def extend_def)

lemmas parent_defs =
  parent_write_reg_def parent_modify_reg_def parent_modify_checked_reg_def px4_usleep_def

lemma set_passthrough_extend:
  "set_passthrough c reg sz out w = extend (set_passthrough_events c reg sz out) 0 w"
  by (cases out)
     (simp_all add: set_passthrough_def set_passthrough_events_def parent_defs emit_extend
        extend_extend)

lemma write_reg_extend: "write_reg c reg val w = extend (write_reg_events c reg val) 0 w"
  by (simp add: write_reg_def write_reg_events_def set_passthrough_extend parent_defs
        emit_extend extend_extend)

lemma read_reg_extend:
  "read_reg c reg w = (rx w (rxpos w), extend (read_reg_events c reg) 1 w)"
  by (simp add: read_reg_def read_reg_events_def set_passthrough_extend parent_defs
        parent_interface_read_def deliver_extend emit_extend extend_extend)

lemma attempt_extend:
  "ak09916_check_id c (write_reg c (AK09916REG_CNTL3 c) (AK09916_RESET c)
       (ak09916_setup_master_i2c c w)) =
   ((AK09916_DEVICE_ID c = rx w (rxpos w), rx w (rxpos w)), extend (attempt_events c) 1 w)"
  by (simp add: ak09916_check_id_def ak09916_setup_master_i2c_def write_reg_extend
        read_reg_extend parent_defs emit_extend extend_extend attempt_events_def)

lemma loop_step_fail:
  assumes "rx w (rxpos w) \<noteq> AK09916_DEVICE_ID c"
  shows "ak09916_setup_loop c retries w =
     (let w' = extend (attempt_events c @ recover_events c (rx w (rxpos w)) (retries - 1)) 1 w
      in if retries - 1 > 0 then ak09916_setup_loop c (retries - 1) w' else (retries - 1, w'))"
  using assms
  by (subst ak09916_setup_loop.simps)
     (simp add: attempt_extend Let_def parent_defs emit_extend extend_extend recover_events_def)

lemma loop_step_ok:
  assumes "rx w (rxpos w) = AK09916_DEVICE_ID c"
  shows "ak09916_setup_loop c retries w = (retries, extend (attempt_events c) 1 w)"
  using assms
  by (subst ak09916_setup_loop.simps) (simp add: attempt_extend Let_def)

lemma loop_success:
  assumes "\<forall>j<n. rx w (rxpos w + j) \<noteq> AK09916_DEVICE_ID c"
    and "rx w (rxpos w + n) = AK09916_DEVICE_ID c"
    and "int n < retries"
  shows "ak09916_setup_loop c retries w =
     (retries - int n,
      extend (failed_events c (rx w) (rxpos w) retries n @ attempt_events c) (n + 1) w)"
  using assms
proof (induction n arbitrary: retries w)
  case 0
  then show ?case by (simp add: loop_step_ok)
next
  case (Suc n)
  let ?w' = "extend (attempt_events c @ recover_events c (rx w (rxpos w)) (retries - 1)) 1 w"
  have first: "rx w (rxpos w) \<noteq> AK09916_DEVICE_ID c"
    using Suc.prems(1) by force
  have rest: "\<forall>j<n. rx ?w' (rxpos ?w' + j) \<noteq> AK09916_DEVICE_ID c"
    using Suc.prems(1) by auto
  have hit: "rx ?w' (rxpos ?w' + n) = AK09916_DEVICE_ID c"
    using Suc.prems(2) by simp
  have "ak09916_setup_loop c retries w = ak09916_setup_loop c (retries - 1) ?w'"
    using Suc.prems(3) by (simp add: loop_step_fail [OF first])
  also have "\<dots> = (retries - 1 - int n,
      extend (failed_events c (rx ?w') (rxpos ?w') (retries - 1) n @ attempt_events c) (n + 1) ?w')"
    using Suc.prems(3) by (intro Suc.IH [OF rest hit]) simp
  finally show ?case
    by (simp add: extend_extend)
qed

lemma loop_exhausted:
  assumes "\<forall>j<Suc n. rx w (rxpos w + j) \<noteq> AK09916_DEVICE_ID c"
  shows "ak09916_setup_loop c (int (Suc n)) w =
     (0, extend (failed_events c (rx w) (rxpos w) (int (Suc n)) (Suc n)) (Suc n) w)"
  using assms
proof (induction n arbitrary: w)
  case 0
  then show ?case by (simp add: loop_step_fail)
next
  case (Suc n)
  let ?r = "int (Suc (Suc n))"
  let ?w' = "extend (attempt_events c @ recover_events c (rx w (rxpos w)) (?r - 1)) 1 w"
  have first: "rx w (rxpos w) \<noteq> AK09916_DEVICE_ID c"
    using Suc.prems by force
  have rest: "\<forall>j<Suc n. rx ?w' (rxpos ?w' + j) \<noteq> AK09916_DEVICE_ID c"
    using Suc.prems by auto
  have "ak09916_setup_loop c ?r w = ak09916_setup_loop c (int (Suc n)) ?w'"
    by (simp add: loop_step_fail [OF first])
  also have "\<dots> =
      (0, extend (failed_events c (rx ?w') (rxpos ?w') (int (Suc n)) (Suc n)) (Suc n) ?w')"
    by (rule Suc.IH [OF rest])
  finally show ?case
    by (simp add: extend_extend)
qed

section \<open>The measurement path\<close>

lemma measure_mag_ready:
  "st1 data AND AK09916_ST1_DRDY c \<noteq> 0 \<Longrightarrow>
   measure_mag c t data w = extend [Set_external (parent_is_external w),
       Set_temperature (parent_last_temperature w),
       Update t (sint (y data)) (sint (x data)) (- sint (z data))] 0 w"
  by (simp add: measure_mag_def Let_def emit_extend extend_extend)

text \<open>
  Claim C4. For every frame whose data-ready flag is set in \<open>st1\<close>, \<^verbatim>\<open>_measure\<close>
  tells the sink the mounting and the temperature of the parent and then publishes exactly
  one sample, with the timestamp it was given and the raw axes \<open>(x, y, z)\<close> handed over
  as \<open>(y, x, - z)\<close>. The witness is the frame with raw axes \<open>(10, 20, 30)\<close>, published
  as \<open>(20, 10, - 30)\<close>.
\<close>

theorem measure_publishes_remapped_sample:
  assumes "st1 data AND AK09916_ST1_DRDY c \<noteq> 0"
  shows "new_events w (measure_mag c t data w) =
           [Set_external (parent_is_external w),
            Set_temperature (parent_last_temperature w),
            Update t (sint (y data)) (sint (x data)) (- sint (z data))]
         \<and> filter is_update (new_events w (measure_mag c t data w)) =
           [Update t (sint (y data)) (sint (x data)) (- sint (z data))]"
  by (simp add: measure_mag_ready [OF assms])

theorem measure_publishes_remapped_sample_witness:
  "st1 sample_frame AND AK09916_ST1_DRDY sample_macros \<noteq> 0
   \<and> filter is_update
       (new_events silent_world (measure_mag sample_macros 1000 sample_frame silent_world)) =
       [Update 1000 20 10 (- 30)]"
proof -
  have ready: "st1 sample_frame AND AK09916_ST1_DRDY sample_macros \<noteq> 0"
    by (simp add: sample_frame_def sample_macros_def)
  show ?thesis
    using ready measure_publishes_remapped_sample [OF ready, of silent_world 1000]
    by (simp add: sample_frame_def)
qed

text \<open>
  Claim C5. For every frame whose data-ready flag is clear, \<^verbatim>\<open>_measure\<close> returns
  with the world as it found it: no call to the sink, no warning or error message, no
  event of any kind, and the three performance counters as they were.
\<close>

theorem measure_discards_not_ready:
  assumes "st1 data AND AK09916_ST1_DRDY c = 0"
  shows "measure_mag c t data w = w
     \<and> new_events w (measure_mag c t data w) = []
     \<and> mag_overruns (measure_mag c t data w) = mag_overruns w
     \<and> mag_overflows (measure_mag c t data w) = mag_overflows w
     \<and> mag_errors (measure_mag c t data w) = mag_errors w"
  using assms by (simp add: measure_mag_def new_events_def)

theorem measure_discards_not_ready_witness:
  "st1 (sample_frame\<lparr>st1 := 2\<rparr>) AND AK09916_ST1_DRDY sample_macros = 0
   \<and> measure_mag sample_macros 1000 (sample_frame\<lparr>st1 := 2\<rparr>) silent_world = silent_world"
proof -
  have idle: "st1 (sample_frame\<lparr>st1 := 2\<rparr>) AND AK09916_ST1_DRDY sample_macros = 0"
    by (simp add: sample_macros_def)
  show ?thesis
    using idle measure_discards_not_ready [OF idle, of 1000 silent_world] by simp
qed

section \<open>The register bridge\<close>

lemma set_passthrough_calls_extend:
  "set_passthrough_calls c calls w =
     extend (concat (map (\<lambda>(reg, sz, out). set_passthrough_events c reg sz out) calls)) 0 w"
  by (induction calls arbitrary: w) (auto simp: set_passthrough_extend extend_extend)

lemma bridge_safe_call:
  assumes "distinct [ICMREG_20948_I2C_SLV0_CTRL c, ICMREG_20948_I2C_SLV0_DO c,
             ICMREG_20948_I2C_SLV0_ADDR c, ICMREG_20948_I2C_SLV0_REG c]"
  shows "bridge_safe c en (set_passthrough_events c reg sz out @ es) =
         bridge_safe c ((sz OR BIT_I2C_SLV0_EN c) AND BIT_I2C_SLV0_EN c \<noteq> 0) es"
  using assms by (cases out) (auto simp: set_passthrough_events_def)

lemma bridge_safe_calls:
  assumes "distinct [ICMREG_20948_I2C_SLV0_CTRL c, ICMREG_20948_I2C_SLV0_DO c,
             ICMREG_20948_I2C_SLV0_ADDR c, ICMREG_20948_I2C_SLV0_REG c]"
  shows "bridge_safe c en
           (concat (map (\<lambda>(reg, sz, out). set_passthrough_events c reg sz out) calls))"
proof (induction calls arbitrary: en)
  case Nil
  show ?case by simp
next
  case (Cons call calls)
  obtain reg sz out where call: "call = (reg, sz, out)"
    by (cases call) auto
  show ?case
    by (simp add: call bridge_safe_call [OF assms] Cons.IH)
qed

text \<open>
  Claim C6. Every call of \<^verbatim>\<open>set_passthrough\<close> writes, in this order: 0 to the proxy
  control register (disable), the output byte if there is one, the device address (with
  the read flag when there is no output byte), the target register, and last the size
  with the enable bit. Hence, whatever the enable flag was before and whatever the calls
  are, no sequence of calls writes the output, address or register proxy while the enable
  flag is set. The four proxy registers are different registers.
\<close>

theorem set_passthrough_disables_first:
  assumes "distinct [ICMREG_20948_I2C_SLV0_CTRL c, ICMREG_20948_I2C_SLV0_DO c,
             ICMREG_20948_I2C_SLV0_ADDR c, ICMREG_20948_I2C_SLV0_REG c]"
  shows "new_events w (set_passthrough c reg sz out w) =
           [Parent_write_reg (ICMREG_20948_I2C_SLV0_CTRL c) 0] @
           (case out of
              Some v \<Rightarrow> [Parent_write_reg (ICMREG_20948_I2C_SLV0_DO c) v]
            | None \<Rightarrow> []) @
           [Parent_write_reg (ICMREG_20948_I2C_SLV0_ADDR c)
              (case out of
                 Some v \<Rightarrow> AK09916_I2C_ADDR c
               | None \<Rightarrow> AK09916_I2C_ADDR c OR BIT_I2C_READ_FLAG c),
            Parent_write_reg (ICMREG_20948_I2C_SLV0_REG c) reg,
            Parent_write_reg (ICMREG_20948_I2C_SLV0_CTRL c) (sz OR BIT_I2C_SLV0_EN c)]
         \<and> bridge_safe c en (new_events w (set_passthrough_calls c calls w))"
proof
  show "new_events w (set_passthrough c reg sz out w) =
           [Parent_write_reg (ICMREG_20948_I2C_SLV0_CTRL c) 0] @
           (case out of
              Some v \<Rightarrow> [Parent_write_reg (ICMREG_20948_I2C_SLV0_DO c) v]
            | None \<Rightarrow> []) @
           [Parent_write_reg (ICMREG_20948_I2C_SLV0_ADDR c)
              (case out of
                 Some v \<Rightarrow> AK09916_I2C_ADDR c
               | None \<Rightarrow> AK09916_I2C_ADDR c OR BIT_I2C_READ_FLAG c),
            Parent_write_reg (ICMREG_20948_I2C_SLV0_REG c) reg,
            Parent_write_reg (ICMREG_20948_I2C_SLV0_CTRL c) (sz OR BIT_I2C_SLV0_EN c)]"
    by (simp add: set_passthrough_extend set_passthrough_events_def)
  show "bridge_safe c en (new_events w (set_passthrough_calls c calls w))"
    by (simp add: set_passthrough_calls_extend bridge_safe_calls [OF assms])
qed

theorem set_passthrough_disables_first_witness:
  "distinct [ICMREG_20948_I2C_SLV0_CTRL sample_macros, ICMREG_20948_I2C_SLV0_DO sample_macros,
     ICMREG_20948_I2C_SLV0_ADDR sample_macros, ICMREG_20948_I2C_SLV0_REG sample_macros]
   \<and> new_events silent_world (set_passthrough sample_macros 0x31 1 (Some 8) silent_world) =
       [Parent_write_reg 0x305 0, Parent_write_reg 0x306 8, Parent_write_reg 0x303 0x0C,
        Parent_write_reg 0x304 0x31, Parent_write_reg 0x305 0x81]
   \<and> bridge_safe sample_macros True
       (new_events silent_world
          (set_passthrough_calls sample_macros [(0x31, 1, Some 8), (0x10, 8, None)] silent_world))"
proof -
  have regs: "distinct [ICMREG_20948_I2C_SLV0_CTRL sample_macros,
      ICMREG_20948_I2C_SLV0_DO sample_macros, ICMREG_20948_I2C_SLV0_ADDR sample_macros,
      ICMREG_20948_I2C_SLV0_REG sample_macros]"
    by (simp add: sample_macros_def)
  show ?thesis
    using regs set_passthrough_disables_first [OF regs, of silent_world "0x31" 1 "Some 8" True
        "[(0x31, 1, Some 8), (0x10, 8, None)]"]
    by (simp add: sample_macros_def)
qed

section \<open>The sample instance, field by field\<close>

lemma sample_fields:
  "ICMREG_20948_I2C_SLV0_CTRL sample_macros = 0x305"
  "ICMREG_20948_I2C_SLV0_DO sample_macros = 0x306"
  "ICMREG_20948_I2C_SLV0_ADDR sample_macros = 0x303"
  "ICMREG_20948_I2C_SLV0_REG sample_macros = 0x304"
  "ICMREG_20948_EXT_SLV_SENS_DATA_00 sample_macros = 0x3B"
  "ICMREG_20948_USER_CTRL sample_macros = 0x03"
  "ICMREG_20948_I2C_MST_CTRL sample_macros = 0x301"
  "BIT_I2C_SLV0_EN sample_macros = 0x80"
  "BIT_I2C_READ_FLAG sample_macros = 0x80"
  "BIT_I2C_MST_EN sample_macros = 0x20"
  "BIT_I2C_MST_RST sample_macros = 0x02"
  "BIT_I2C_MST_P_NSR sample_macros = 0x10"
  "ICM_BITS_I2C_MST_CLOCK_400HZ sample_macros = 0x07"
  "AK09916_I2C_ADDR sample_macros = 0x0C"
  "AK09916_DEVICE_ID sample_macros = 0x09"
  "AK09916REG_WIA sample_macros = 0x01"
  "AK09916REG_ST1 sample_macros = 0x10"
  "AK09916REG_CNTL1 sample_macros = 0x30"
  "AK09916REG_CNTL2 sample_macros = 0x31"
  "AK09916REG_CNTL3 sample_macros = 0x32"
  "AK09916REG_ASAX sample_macros = 0x60"
  "AK09916_RESET sample_macros = 0x01"
  "AK09916_CNTL2_CONTINOUS_MODE_100HZ sample_macros = 0x08"
  "AK09916_FUZE_MODE sample_macros = 0x0F"
  "AK09916_16BIT_ADC sample_macros = 0x10"
  "AK09916_POWERDOWN_MODE sample_macros = 0x00"
  "AK09916_ST1_DRDY sample_macros = 0x01"
  "sizeof_ak09916_regs sample_macros = 8"
  by (simp_all add: sample_macros_def)

section \<open>The calibration reader\<close>

lemma ak09916_ASA_three:
  "ak09916_ASA [a, b, d] =
     (if a \<noteq> 0 \<and> a \<noteq> 0xff \<and> b \<noteq> 0 \<and> b \<noteq> 0xff \<and> d \<noteq> 0 \<and> d \<noteq> 0xff
      then Some [of_int (uint a - 128) / 256 + 1, of_int (uint b - 128) / 256 + 1,
                 of_int (uint d - 128) / 256 + 1]
      else None)"
  by auto

lemma read_adjustments_extend:
  "ak09916_read_adjustments c w =
     (case ak09916_ASA [rx w (rxpos w), rx w (rxpos w + 1), rx w (rxpos w + 2)] of
        Some [a0, a1, a2] \<Rightarrow> (True, extend (adjustment_events c @ [Set_sensitivity a0 a1 a2]) 3 w)
      | _ \<Rightarrow> (False, extend (adjustment_events c) 3 w))"
proof -
  have three: "[0..<3] = [0, 1, 2]"
    by code_simp
  show ?thesis
    unfolding ak09916_read_adjustments_def interface_read_def deliver_extend three
    by (simp add: write_reg_extend parent_defs emit_extend extend_extend adjustment_events_def
        ak09916_ASA_three del: ak09916_ASA.simps)
qed

lemma adjustment_events_no_sensitivity: "filter is_set_sensitivity (adjustment_events c) = []"
  by (simp add: adjustment_events_def write_reg_events_def set_passthrough_events_def)

text \<open>
  The converted value is a multiple of \<open>1 / 256\<close> with a numerator below \<open>384\<close>: a
  binary32 number, so the \<^verbatim>\<open>float\<close> the code computes is this rational.
\<close>

lemma sensitivity_dyadic:
  "sensitivity v = of_nat (unat v + 128) / 2 ^ 8 \<and> unat v + 128 < 384"
proof -
  have "unat v < 256"
    using unsigned_less [of v, where ?'a = nat] by simp
  then show ?thesis
    by (simp add: sensitivity_def field_simps)
qed

lemma byte_in_range: "1 \<le> unat (v :: u8) \<Longrightarrow> unat v \<le> 254 \<Longrightarrow> v \<noteq> 0 \<and> v \<noteq> 0xff"
  by auto

text \<open>
  Claim C3. When one of the three calibration bytes the bus delivers is \<open>0x00\<close> or
  \<open>0xFF\<close>, \<^verbatim>\<open>ak09916_read_adjustments\<close> returns \<^verbatim>\<open>false\<close> and makes no call
  of \<^verbatim>\<open>set_sensitivity\<close>.
\<close>

theorem read_adjustments_rejects_sentinel:
  assumes "rx w (rxpos w) \<in> {0, 0xff} \<or> rx w (rxpos w + 1) \<in> {0, 0xff}
           \<or> rx w (rxpos w + 2) \<in> {0, 0xff}"
  shows "\<not> fst (ak09916_read_adjustments c w)
         \<and> filter is_set_sensitivity (new_events w (snd (ak09916_read_adjustments c w))) = []"
  using assms
  by (auto simp: read_adjustments_extend ak09916_ASA_three adjustment_events_no_sensitivity
      simp del: ak09916_ASA.simps)

theorem read_adjustments_rejects_sentinel_witness:
  "(rx silent_world (rxpos silent_world) \<in> {0, 0xff}
    \<or> rx silent_world (rxpos silent_world + 1) \<in> {0, 0xff}
    \<or> rx silent_world (rxpos silent_world + 2) \<in> {0, 0xff})
   \<and> \<not> fst (ak09916_read_adjustments sample_macros silent_world)
   \<and> filter is_set_sensitivity
       (new_events silent_world (snd (ak09916_read_adjustments sample_macros silent_world))) = []"
proof -
  have sentinel: "rx silent_world (rxpos silent_world) \<in> {0, 0xff}
    \<or> rx silent_world (rxpos silent_world + 1) \<in> {0, 0xff}
    \<or> rx silent_world (rxpos silent_world + 2) \<in> {0, 0xff}"
    by (simp add: silent_world_def)
  show ?thesis
    using sentinel read_adjustments_rejects_sentinel [OF sentinel, of sample_macros] by simp
qed

text \<open>
  Claim C7. When the three calibration bytes all lie in \<open>[1, 254]\<close>,
  \<^verbatim>\<open>ak09916_read_adjustments\<close> returns \<^verbatim>\<open>true\<close> and calls
  \<^verbatim>\<open>set_sensitivity\<close> exactly once, with \<open>(v - 128) / 256 + 1\<close> for the byte
  \<open>v\<close> of each axis. The witness reads the bytes 128, 1 and 254 and pushes
  \<open>1\<close>, \<open>129 / 256\<close> (about 0.504) and \<open>191 / 128\<close> (about 1.492).
\<close>

theorem read_adjustments_converts:
  assumes "\<forall>i<3. 1 \<le> unat (rx w (rxpos w + i)) \<and> unat (rx w (rxpos w + i)) \<le> 254"
  shows "fst (ak09916_read_adjustments c w)
         \<and> filter is_set_sensitivity (new_events w (snd (ak09916_read_adjustments c w))) =
             [Set_sensitivity (sensitivity (rx w (rxpos w))) (sensitivity (rx w (rxpos w + 1)))
                (sensitivity (rx w (rxpos w + 2)))]"
proof -
  have "rx w (rxpos w) \<noteq> 0 \<and> rx w (rxpos w) \<noteq> 0xff"
    using assms [rule_format, of 0] by (intro byte_in_range) simp_all
  moreover have "rx w (rxpos w + 1) \<noteq> 0 \<and> rx w (rxpos w + 1) \<noteq> 0xff"
    using assms [rule_format, of 1] by (intro byte_in_range) simp_all
  moreover have "rx w (rxpos w + 2) \<noteq> 0 \<and> rx w (rxpos w + 2) \<noteq> 0xff"
    using assms [rule_format, of 2] by (intro byte_in_range) simp_all
  ultimately show ?thesis
    by (simp add: read_adjustments_extend ak09916_ASA_three adjustment_events_no_sensitivity
        sensitivity_def del: ak09916_ASA.simps)
qed

theorem read_adjustments_converts_witness:
  "map (\<lambda>i. rx fuse_world (rxpos fuse_world + i)) [0, 1, 2] = [128, 1, 254]
   \<and> fst (ak09916_read_adjustments sample_macros fuse_world)
   \<and> filter is_set_sensitivity
       (new_events fuse_world (snd (ak09916_read_adjustments sample_macros fuse_world))) =
       [Set_sensitivity 1 (129 / 256) (191 / 128)]
   \<and> \<bar>129 / 256 - 504 / 1000\<bar> < (1 / 1000 :: rat)
   \<and> \<bar>191 / 128 - 1492 / 1000\<bar> < (1 / 1000 :: rat)"
proof -
  have bytes: "\<forall>i<3. 1 \<le> unat (rx fuse_world (rxpos fuse_world + i))
      \<and> unat (rx fuse_world (rxpos fuse_world + i)) \<le> 254"
    by (simp add: fuse_world_def)
  show ?thesis
    using bytes read_adjustments_converts [OF bytes, of sample_macros]
    by (simp add: fuse_world_def sensitivity_def)
qed

text \<open>
  Claim C10. In every execution of \<^verbatim>\<open>ak09916_read_adjustments\<close> the trace is the
  write of the fuse mode, the two delays around it, the read of the three bytes and the
  write of the power-down mode to the control register, followed by nothing but the call
  of \<^verbatim>\<open>set_sensitivity\<close>, which is there when the result is \<^verbatim>\<open>true\<close> and
  absent when it is \<^verbatim>\<open>false\<close>. The power-down write is issued before the bytes are
  judged, also when a sentinel byte makes the calibration fail.
\<close>

theorem read_adjustments_powers_down:
  "new_events w (snd (ak09916_read_adjustments c w)) =
     [Parent_write_reg (ICMREG_20948_I2C_SLV0_CTRL c) 0,
      Parent_write_reg (ICMREG_20948_I2C_SLV0_DO c) (AK09916_FUZE_MODE c OR AK09916_16BIT_ADC c),
      Parent_write_reg (ICMREG_20948_I2C_SLV0_ADDR c) (AK09916_I2C_ADDR c),
      Parent_write_reg (ICMREG_20948_I2C_SLV0_REG c) (ucast (AK09916REG_CNTL1 c)),
      Parent_write_reg (ICMREG_20948_I2C_SLV0_CTRL c) (1 OR BIT_I2C_SLV0_EN c),
      Px4_usleep 50,
      Parent_write_reg (ICMREG_20948_I2C_SLV0_CTRL c) 0,
      Px4_usleep 50,
      Interface_read (AK09916REG_ASAX c) 3,
      Parent_write_reg (ICMREG_20948_I2C_SLV0_CTRL c) 0,
      Parent_write_reg (ICMREG_20948_I2C_SLV0_DO c) (AK09916_POWERDOWN_MODE c),
      Parent_write_reg (ICMREG_20948_I2C_SLV0_ADDR c) (AK09916_I2C_ADDR c),
      Parent_write_reg (ICMREG_20948_I2C_SLV0_REG c) (ucast (AK09916REG_CNTL1 c)),
      Parent_write_reg (ICMREG_20948_I2C_SLV0_CTRL c) (1 OR BIT_I2C_SLV0_EN c),
      Px4_usleep 50,
      Parent_write_reg (ICMREG_20948_I2C_SLV0_CTRL c) 0] @
     filter is_set_sensitivity (new_events w (snd (ak09916_read_adjustments c w)))
   \<and> length (filter is_set_sensitivity (new_events w (snd (ak09916_read_adjustments c w)))) =
       (if fst (ak09916_read_adjustments c w) then 1 else 0)"
proof -
  have events: "adjustment_events c =
     [Parent_write_reg (ICMREG_20948_I2C_SLV0_CTRL c) 0,
      Parent_write_reg (ICMREG_20948_I2C_SLV0_DO c) (AK09916_FUZE_MODE c OR AK09916_16BIT_ADC c),
      Parent_write_reg (ICMREG_20948_I2C_SLV0_ADDR c) (AK09916_I2C_ADDR c),
      Parent_write_reg (ICMREG_20948_I2C_SLV0_REG c) (ucast (AK09916REG_CNTL1 c)),
      Parent_write_reg (ICMREG_20948_I2C_SLV0_CTRL c) (1 OR BIT_I2C_SLV0_EN c),
      Px4_usleep 50,
      Parent_write_reg (ICMREG_20948_I2C_SLV0_CTRL c) 0,
      Px4_usleep 50,
      Interface_read (AK09916REG_ASAX c) 3,
      Parent_write_reg (ICMREG_20948_I2C_SLV0_CTRL c) 0,
      Parent_write_reg (ICMREG_20948_I2C_SLV0_DO c) (AK09916_POWERDOWN_MODE c),
      Parent_write_reg (ICMREG_20948_I2C_SLV0_ADDR c) (AK09916_I2C_ADDR c),
      Parent_write_reg (ICMREG_20948_I2C_SLV0_REG c) (ucast (AK09916REG_CNTL1 c)),
      Parent_write_reg (ICMREG_20948_I2C_SLV0_CTRL c) (1 OR BIT_I2C_SLV0_EN c),
      Px4_usleep 50,
      Parent_write_reg (ICMREG_20948_I2C_SLV0_CTRL c) 0]"
    by (simp add: adjustment_events_def write_reg_events_def set_passthrough_events_def)
  have "new_events w (snd (ak09916_read_adjustments c w)) =
      adjustment_events c @
      filter is_set_sensitivity (new_events w (snd (ak09916_read_adjustments c w)))
    \<and> length (filter is_set_sensitivity (new_events w (snd (ak09916_read_adjustments c w)))) =
       (if fst (ak09916_read_adjustments c w) then 1 else 0)"
    by (simp add: read_adjustments_extend ak09916_ASA_three adjustment_events_no_sensitivity
        del: ak09916_ASA.simps)
  then show ?thesis
    unfolding events .
qed

theorem read_adjustments_powers_down_witness:
  "\<not> fst (ak09916_read_adjustments sample_macros silent_world)
   \<and> drop 9 (new_events silent_world (snd (ak09916_read_adjustments sample_macros silent_world))) =
     [Parent_write_reg 0x305 0, Parent_write_reg 0x306 0, Parent_write_reg 0x303 0x0C,
      Parent_write_reg 0x304 0x30, Parent_write_reg 0x305 0x81, Px4_usleep 50,
      Parent_write_reg 0x305 0]"
proof -
  have failed: "\<not> fst (ak09916_read_adjustments sample_macros silent_world)"
    by (simp add: read_adjustments_extend ak09916_ASA_three silent_world_def
        del: ak09916_ASA.simps)
  note main = read_adjustments_powers_down [of silent_world sample_macros]
  have none: "filter is_set_sensitivity
      (new_events silent_world (snd (ak09916_read_adjustments sample_macros silent_world))) = []"
    using failed main by simp
  show ?thesis
    using failed main [unfolded none] by (simp add: sample_fields)
qed

section \<open>The initialisation retry loop\<close>

lemma setup_success:
  assumes "\<forall>j<n. rx w (rxpos w + j) \<noteq> AK09916_DEVICE_ID c"
    and "rx w (rxpos w + n) = AK09916_DEVICE_ID c"
    and "n < 20"
  shows "ak09916_setup c w =
     (Inr (), extend (failed_events c (rx w) (rxpos w) 20 n @ attempt_events c @ done_events c)
                (n + 1) w)"
proof -
  have "ak09916_setup_loop c 20 w =
      (20 - int n, extend (failed_events c (rx w) (rxpos w) 20 n @ attempt_events c) (n + 1) w)"
    using assms by (intro loop_success) simp_all
  moreover have "20 - int n \<noteq> 0"
    using assms(3) by simp
  ultimately show ?thesis
    by (simp add: ak09916_setup_def write_reg_extend set_passthrough_extend extend_extend
        done_events_def)
qed

lemma setup_failure:
  assumes "\<forall>j<20. rx w (rxpos w + j) \<noteq> AK09916_DEVICE_ID c"
  shows "ak09916_setup c w =
     (Inl EIO, extend (failed_events c (rx w) (rxpos w) 20 20 @ disable_events c) 20 w)"
proof -
  have "ak09916_setup_loop c (int (Suc 19)) w =
      (0, extend (failed_events c (rx w) (rxpos w) (int (Suc 19)) (Suc 19)) (Suc 19) w)"
    using assms by (intro loop_exhausted) simp
  then have "ak09916_setup_loop c 20 w =
      (0, extend (failed_events c (rx w) (rxpos w) 20 20) 20 w)"
    by simp
  then show ?thesis
    by (simp add: ak09916_setup_def parent_defs emit_extend extend_extend disable_events_def)
qed

lemma setup_cases:
  obtains n where "n < 20"
      and "\<forall>j<n. rx w (rxpos w + j) \<noteq> AK09916_DEVICE_ID c"
      and "rx w (rxpos w + n) = AK09916_DEVICE_ID c"
      and "ak09916_setup c w =
        (Inr (), extend (failed_events c (rx w) (rxpos w) 20 n @ attempt_events c @ done_events c)
                   (n + 1) w)"
  | "\<forall>j<20. rx w (rxpos w + j) \<noteq> AK09916_DEVICE_ID c"
      and "ak09916_setup c w =
        (Inl EIO, extend (failed_events c (rx w) (rxpos w) 20 20 @ disable_events c) 20 w)"
proof (cases "\<exists>n<20. rx w (rxpos w + n) = AK09916_DEVICE_ID c")
  case True
  define n where "n = (LEAST n. rx w (rxpos w + n) = AK09916_DEVICE_ID c)"
  from True obtain m where m: "m < 20" "rx w (rxpos w + m) = AK09916_DEVICE_ID c"
    by blast
  have hit: "rx w (rxpos w + n) = AK09916_DEVICE_ID c"
    unfolding n_def using m(2) by (rule LeastI)
  have "n \<le> m"
    unfolding n_def using m(2) by (rule Least_le)
  then have bound: "n < 20"
    using m(1) by simp
  have before: "\<forall>j<n. rx w (rxpos w + j) \<noteq> AK09916_DEVICE_ID c"
    unfolding n_def using not_less_Least by blast
  show ?thesis
    using that(1) [OF bound before hit setup_success [OF before hit bound]] .
next
  case False
  then have never: "\<forall>j<20. rx w (rxpos w + j) \<noteq> AK09916_DEVICE_ID c"
    by blast
  show ?thesis
    using that(2) [OF never setup_failure [OF never]] .
qed

lemma count_failed_events:
  assumes "\<And>d r. filter P (recover_events c d r) = []"
  shows "length (filter P (failed_events c f p retries n)) =
         n * length (filter P (attempt_events c))"
  by (induction n arbitrary: p retries) (simp_all add: assms)

lemma id_reads_attempt: "length (filter (is_id_read c) (attempt_events c)) = 1"
  by (simp add: attempt_events_def write_reg_events_def read_reg_events_def
      set_passthrough_events_def is_id_read_def)

lemma id_reads_recover: "filter (is_id_read c) (recover_events c d r) = []"
  by (simp add: recover_events_def is_id_read_def)

lemma id_reads_done: "filter (is_id_read c) (done_events c) = []"
  by (simp add: done_events_def write_reg_events_def set_passthrough_events_def is_id_read_def)

lemma id_reads_disable: "filter (is_id_read c) (disable_events c) = []"
  by (simp add: disable_events_def is_id_read_def)

lemma id_reads_failed: "length (filter (is_id_read c) (failed_events c f p retries n)) = n"
  by (simp add: count_failed_events id_reads_recover id_reads_attempt)

lemma failed_events_snoc:
  "failed_events c f p retries (Suc n) =
     failed_events c f p retries n @ attempt_events c @
     recover_events c (f (p + n)) (retries - int n - 1)"
proof (induction n arbitrary: p retries)
  case 0
  show ?case by simp
next
  case (Suc n)
  have "failed_events c f p retries (Suc (Suc n)) =
      attempt_events c @ recover_events c (f p) (retries - 1) @
      failed_events c f (Suc p) (retries - 1) (Suc n)"
    by simp
  also have "failed_events c f (Suc p) (retries - 1) (Suc n) =
      failed_events c f (Suc p) (retries - 1) n @ attempt_events c @
      recover_events c (f (Suc p + n)) (retries - 1 - int n - 1)"
    by (rule Suc.IH)
  finally show ?case
    by (simp add: algebra_simps)
qed

lemma after_last_hit:
  assumes "P e" and "\<forall>b\<in>set bs. \<not> P b"
  shows "after_last P (as @ e # bs) = bs"
proof -
  have "takeWhile (\<lambda>e. \<not> P e) (rev bs @ e # rev as) = rev bs"
    using assms by (simp add: takeWhile_tail)
  then show ?thesis
    by (simp add: after_last_def)
qed

lemma attempt_events_split:
  "attempt_events c =
     butlast (butlast (attempt_events c)) @
     Parent_interface_read (ICMREG_20948_EXT_SLV_SENS_DATA_00 c) 1 #
     [Parent_write_reg (ICMREG_20948_I2C_SLV0_CTRL c) 0]"
  by (simp add: attempt_events_def write_reg_events_def read_reg_events_def
      set_passthrough_events_def)

text \<open>
  Claim C1. When the identity reads deliver the expected identity for the first time on
  attempt \<open>k\<close>, with \<open>1 \<le> k \<le> 20\<close>, \<^verbatim>\<open>ak09916_setup\<close> returns
  \<^verbatim>\<open>OK\<close> after exactly \<open>k\<close> identity reads, and the events after the last
  identity read hold neither a device reset nor a master reset. The proxy registers are
  different registers, and the reset register of the magnetometer is neither its mode
  register nor its first status register.
\<close>

theorem setup_succeeds_on_attempt_k:
  assumes "1 \<le> k" and "k \<le> 20"
    and "\<forall>j<k - 1. rx w (rxpos w + j) \<noteq> AK09916_DEVICE_ID c"
    and "rx w (rxpos w + (k - 1)) = AK09916_DEVICE_ID c"
    and "distinct [ICMREG_20948_I2C_SLV0_CTRL c, ICMREG_20948_I2C_SLV0_DO c,
           ICMREG_20948_I2C_SLV0_ADDR c, ICMREG_20948_I2C_SLV0_REG c]"
    and "(ucast (AK09916REG_CNTL3 c) :: u8) \<noteq> ucast (AK09916REG_CNTL2 c)"
    and "(ucast (AK09916REG_CNTL3 c) :: u8) \<noteq> ucast (AK09916REG_ST1 c)"
  shows "fst (ak09916_setup c w) = Inr ()
     \<and> length (filter (is_id_read c) (new_events w (snd (ak09916_setup c w)))) = k
     \<and> rxpos (snd (ak09916_setup c w)) = rxpos w + k
     \<and> filter (\<lambda>e. is_device_reset c e \<or> is_master_reset c e)
         (after_last (is_id_read c) (new_events w (snd (ak09916_setup c w)))) = []"
proof -
  let ?F = "failed_events c (rx w) (rxpos w) 20 (k - 1)"
  let ?tail = "Parent_write_reg (ICMREG_20948_I2C_SLV0_CTRL c) 0 # done_events c"
  have run: "ak09916_setup c w =
      (Inr (), extend (?F @ attempt_events c @ done_events c) (k - 1 + 1) w)"
    using assms(1-4) by (intro setup_success) simp_all
  have split: "?F @ attempt_events c @ done_events c =
      (?F @ butlast (butlast (attempt_events c))) @
      Parent_interface_read (ICMREG_20948_EXT_SLV_SENS_DATA_00 c) 1 # ?tail"
    by (subst attempt_events_split) simp
  have quiet: "\<forall>b\<in>set ?tail. \<not> is_id_read c b"
    by (simp add: done_events_def write_reg_events_def set_passthrough_events_def is_id_read_def)
  have after: "after_last (is_id_read c) (?F @ attempt_events c @ done_events c) = ?tail"
    unfolding split by (rule after_last_hit) (simp add: is_id_read_def, rule quiet)
  have no_reset: "filter (\<lambda>e. is_device_reset c e \<or> is_master_reset c e) ?tail = []"
    using assms(5-7)
    by (auto simp: done_events_def write_reg_events_def set_passthrough_events_def
        is_device_reset_def)
  have count: "length (filter (is_id_read c) (?F @ attempt_events c @ done_events c)) = k"
    using assms(1) by (simp add: id_reads_failed id_reads_attempt id_reads_done)
  have ev: "new_events w (snd (ak09916_setup c w)) = ?F @ attempt_events c @ done_events c"
    by (simp add: run)
  show ?thesis
  proof (intro conjI)
    show "fst (ak09916_setup c w) = Inr ()"
      by (simp add: run)
    show "length (filter (is_id_read c) (new_events w (snd (ak09916_setup c w)))) = k"
      unfolding ev by (rule count)
    show "rxpos (snd (ak09916_setup c w)) = rxpos w + k"
      using assms(1) by (simp add: run)
    show "filter (\<lambda>e. is_device_reset c e \<or> is_master_reset c e)
        (after_last (is_id_read c) (new_events w (snd (ak09916_setup c w)))) = []"
      unfolding ev after by (rule no_reset)
  qed
qed

theorem setup_succeeds_on_attempt_k_witness:
  "rx second_try_world 0 \<noteq> AK09916_DEVICE_ID sample_macros
   \<and> rx second_try_world 1 = AK09916_DEVICE_ID sample_macros
   \<and> fst (ak09916_setup sample_macros second_try_world) = Inr ()
   \<and> length (filter (is_id_read sample_macros)
        (new_events second_try_world (snd (ak09916_setup sample_macros second_try_world)))) = 2
   \<and> filter (\<lambda>e. is_device_reset sample_macros e \<or> is_master_reset sample_macros e)
        (after_last (is_id_read sample_macros)
           (new_events second_try_world (snd (ak09916_setup sample_macros second_try_world)))) = []"
proof -
  have miss: "\<forall>j<2 - 1. rx second_try_world (rxpos second_try_world + j)
      \<noteq> AK09916_DEVICE_ID sample_macros"
    by (simp add: second_try_world_def sample_fields)
  have hit: "rx second_try_world (rxpos second_try_world + (2 - 1))
      = AK09916_DEVICE_ID sample_macros"
    by (simp add: second_try_world_def sample_fields)
  have regs: "distinct [ICMREG_20948_I2C_SLV0_CTRL sample_macros,
      ICMREG_20948_I2C_SLV0_DO sample_macros, ICMREG_20948_I2C_SLV0_ADDR sample_macros,
      ICMREG_20948_I2C_SLV0_REG sample_macros]"
    by (simp add: sample_fields)
  have cntl2: "(ucast (AK09916REG_CNTL3 sample_macros) :: u8)
      \<noteq> ucast (AK09916REG_CNTL2 sample_macros)"
    by (simp add: sample_fields)
  have st1: "(ucast (AK09916REG_CNTL3 sample_macros) :: u8)
      \<noteq> ucast (AK09916REG_ST1 sample_macros)"
    by (simp add: sample_fields)
  have "(1::nat) \<le> 2" and "(2::nat) \<le> 20"
    by simp_all
  from setup_succeeds_on_attempt_k [OF this miss hit regs cntl2 st1]
  show ?thesis
    by (simp add: second_try_world_def sample_fields)
qed

text \<open>
  Claim C2. When none of the first 20 identity reads delivers the expected identity,
  \<^verbatim>\<open>ak09916_setup\<close> returns \<^verbatim>\<open>-EIO\<close> after exactly 20 identity reads. After
  the last of them the trace holds the end of the 20th pass (proxy disabled, warning with
  0 retries left, master reset, delay) and then the error message, the
  read-modify-write that clears the master-enable bit and the write of 0 to the master
  clock register; nothing follows, so no further attempt is made.
\<close>

theorem setup_fails_after_twenty:
  assumes "\<forall>j<20. rx w (rxpos w + j) \<noteq> AK09916_DEVICE_ID c"
  shows "fst (ak09916_setup c w) = Inl EIO
     \<and> length (filter (is_id_read c) (new_events w (snd (ak09916_setup c w)))) = 20
     \<and> rxpos (snd (ak09916_setup c w)) = rxpos w + 20
     \<and> after_last (is_id_read c) (new_events w (snd (ak09916_setup c w))) =
         [Parent_write_reg (ICMREG_20948_I2C_SLV0_CTRL c) 0,
          PX4_WARN (rx w (rxpos w + 19)) 0,
          Parent_modify_reg (ICMREG_20948_USER_CTRL c) 0 (BIT_I2C_MST_RST c),
          Px4_usleep 200,
          PX4_ERR,
          Parent_modify_checked_reg (ICMREG_20948_USER_CTRL c) (BIT_I2C_MST_EN c) 0,
          Parent_write_reg (ICMREG_20948_I2C_MST_CTRL c) 0]"
proof -
  let ?F = "failed_events c (rx w) (rxpos w) 20 19"
  let ?tail = "Parent_write_reg (ICMREG_20948_I2C_SLV0_CTRL c) 0 #
      recover_events c (rx w (rxpos w + 19)) 0 @ disable_events c"
  have run: "ak09916_setup c w =
      (Inl EIO, extend (failed_events c (rx w) (rxpos w) 20 20 @ disable_events c) 20 w)"
    using assms by (rule setup_failure)
  have "failed_events c (rx w) (rxpos w) 20 (Suc 19) =
      ?F @ attempt_events c @ recover_events c (rx w (rxpos w + 19)) (20 - int 19 - 1)"
    by (rule failed_events_snoc)
  then have last: "failed_events c (rx w) (rxpos w) 20 20 =
      ?F @ attempt_events c @ recover_events c (rx w (rxpos w + 19)) 0"
    by simp
  have split: "failed_events c (rx w) (rxpos w) 20 20 @ disable_events c =
      (?F @ butlast (butlast (attempt_events c))) @
      Parent_interface_read (ICMREG_20948_EXT_SLV_SENS_DATA_00 c) 1 # ?tail"
    unfolding last by (subst attempt_events_split) simp
  have quiet: "\<forall>b\<in>set ?tail. \<not> is_id_read c b"
    by (simp add: recover_events_def disable_events_def is_id_read_def)
  have after: "after_last (is_id_read c)
      (failed_events c (rx w) (rxpos w) 20 20 @ disable_events c) = ?tail"
    unfolding split by (rule after_last_hit) (simp add: is_id_read_def, rule quiet)
  have count: "length (filter (is_id_read c)
      (failed_events c (rx w) (rxpos w) 20 20 @ disable_events c)) = 20"
    by (simp add: id_reads_failed id_reads_disable)
  have ev: "new_events w (snd (ak09916_setup c w)) =
      failed_events c (rx w) (rxpos w) 20 20 @ disable_events c"
    by (simp add: run)
  show ?thesis
  proof (intro conjI)
    show "fst (ak09916_setup c w) = Inl EIO"
      by (simp add: run)
    show "length (filter (is_id_read c) (new_events w (snd (ak09916_setup c w)))) = 20"
      unfolding ev by (rule count)
    show "rxpos (snd (ak09916_setup c w)) = rxpos w + 20"
      by (simp add: run)
    show "after_last (is_id_read c) (new_events w (snd (ak09916_setup c w))) =
         [Parent_write_reg (ICMREG_20948_I2C_SLV0_CTRL c) 0,
          PX4_WARN (rx w (rxpos w + 19)) 0,
          Parent_modify_reg (ICMREG_20948_USER_CTRL c) 0 (BIT_I2C_MST_RST c),
          Px4_usleep 200,
          PX4_ERR,
          Parent_modify_checked_reg (ICMREG_20948_USER_CTRL c) (BIT_I2C_MST_EN c) 0,
          Parent_write_reg (ICMREG_20948_I2C_MST_CTRL c) 0]"
      unfolding ev after by (simp add: recover_events_def disable_events_def)
  qed
qed

theorem setup_fails_after_twenty_witness:
  "rx silent_world 19 \<noteq> AK09916_DEVICE_ID sample_macros
   \<and> fst (ak09916_setup sample_macros silent_world) = Inl EIO
   \<and> length (filter (is_id_read sample_macros)
        (new_events silent_world (snd (ak09916_setup sample_macros silent_world)))) = 20
   \<and> after_last (is_id_read sample_macros)
        (new_events silent_world (snd (ak09916_setup sample_macros silent_world))) =
       [Parent_write_reg 0x305 0, PX4_WARN 0 0, Parent_modify_reg 0x03 0 0x02, Px4_usleep 200,
        PX4_ERR, Parent_modify_checked_reg 0x03 0x20 0, Parent_write_reg 0x301 0]"
proof -
  have never: "\<forall>j<20. rx silent_world (rxpos silent_world + j)
      \<noteq> AK09916_DEVICE_ID sample_macros"
    by (simp add: silent_world_def sample_fields)
  from setup_fails_after_twenty [OF never]
  show ?thesis
    by (simp add: silent_world_def sample_fields)
qed

subsection \<open>How often the master interface is configured\<close>

lemmas event_list_defs =
  attempt_events_def recover_events_def done_events_def disable_events_def
  write_reg_events_def read_reg_events_def set_passthrough_events_def

lemma enables_attempt: "length (filter (is_master_enable c) (attempt_events c)) = 1"
  by (simp add: event_list_defs is_master_enable_def)

lemma enables_recover: "filter (is_master_enable c) (recover_events c d r) = []"
  by (simp add: event_list_defs is_master_enable_def)

lemma enables_done: "filter (is_master_enable c) (done_events c) = []"
  by (simp add: event_list_defs is_master_enable_def)

lemma enables_disable:
  "BIT_I2C_MST_EN c \<noteq> 0 \<Longrightarrow> filter (is_master_enable c) (disable_events c) = []"
  by (simp add: event_list_defs is_master_enable_def)

lemma enables_failed:
  "length (filter (is_master_enable c) (failed_events c f p retries n)) = n"
  by (simp add: count_failed_events enables_recover enables_attempt)

lemma master_clock_apart:
  assumes "ICMREG_20948_I2C_MST_CTRL c \<notin> {ICMREG_20948_I2C_SLV0_CTRL c,
      ICMREG_20948_I2C_SLV0_DO c, ICMREG_20948_I2C_SLV0_ADDR c, ICMREG_20948_I2C_SLV0_REG c}"
  shows "ICMREG_20948_I2C_SLV0_CTRL c \<noteq> ICMREG_20948_I2C_MST_CTRL c"
    and "ICMREG_20948_I2C_SLV0_DO c \<noteq> ICMREG_20948_I2C_MST_CTRL c"
    and "ICMREG_20948_I2C_SLV0_ADDR c \<noteq> ICMREG_20948_I2C_MST_CTRL c"
    and "ICMREG_20948_I2C_SLV0_REG c \<noteq> ICMREG_20948_I2C_MST_CTRL c"
  using assms by auto

lemma clocks_attempt:
  assumes "ICMREG_20948_I2C_MST_CTRL c \<notin> {ICMREG_20948_I2C_SLV0_CTRL c,
      ICMREG_20948_I2C_SLV0_DO c, ICMREG_20948_I2C_SLV0_ADDR c, ICMREG_20948_I2C_SLV0_REG c}"
  shows "length (filter (is_master_clock c) (attempt_events c)) = 1"
  by (simp add: event_list_defs is_master_clock_def master_clock_apart [OF assms])

lemma clocks_recover: "filter (is_master_clock c) (recover_events c d r) = []"
  by (simp add: event_list_defs is_master_clock_def)

lemma clocks_done:
  assumes "ICMREG_20948_I2C_MST_CTRL c \<notin> {ICMREG_20948_I2C_SLV0_CTRL c,
      ICMREG_20948_I2C_SLV0_DO c, ICMREG_20948_I2C_SLV0_ADDR c, ICMREG_20948_I2C_SLV0_REG c}"
  shows "filter (is_master_clock c) (done_events c) = []"
  by (simp add: event_list_defs is_master_clock_def master_clock_apart [OF assms])

lemma clocks_disable:
  "BIT_I2C_MST_P_NSR c OR ICM_BITS_I2C_MST_CLOCK_400HZ c \<noteq> 0 \<Longrightarrow>
   filter (is_master_clock c) (disable_events c) = []"
  by (simp add: event_list_defs is_master_clock_def)

lemma clocks_failed:
  assumes "ICMREG_20948_I2C_MST_CTRL c \<notin> {ICMREG_20948_I2C_SLV0_CTRL c,
      ICMREG_20948_I2C_SLV0_DO c, ICMREG_20948_I2C_SLV0_ADDR c, ICMREG_20948_I2C_SLV0_REG c}"
  shows "length (filter (is_master_clock c) (failed_events c f p retries n)) = n"
  by (simp add: count_failed_events clocks_recover clocks_attempt [OF assms])

text \<open>
  Claim C8, as amended. \<^verbatim>\<open>ak09916_setup_master_i2c\<close> is called inside the loop:
  in every execution of \<^verbatim>\<open>ak09916_setup\<close> the master-enable bit is set and the
  master clock register is programmed once per identity-check attempt, as often as the
  identity is read, which is between 1 and 20 times. The enable mask and the clock value
  are not zero, and the master clock register is none of the proxy registers.
\<close>

theorem master_configured_once_per_attempt:
  assumes "BIT_I2C_MST_EN c \<noteq> 0"
    and "BIT_I2C_MST_P_NSR c OR ICM_BITS_I2C_MST_CLOCK_400HZ c \<noteq> 0"
    and "ICMREG_20948_I2C_MST_CTRL c \<notin> {ICMREG_20948_I2C_SLV0_CTRL c,
      ICMREG_20948_I2C_SLV0_DO c, ICMREG_20948_I2C_SLV0_ADDR c, ICMREG_20948_I2C_SLV0_REG c}"
  shows "length (filter (is_master_enable c) (new_events w (snd (ak09916_setup c w)))) =
           length (filter (is_id_read c) (new_events w (snd (ak09916_setup c w))))
     \<and> length (filter (is_master_clock c) (new_events w (snd (ak09916_setup c w)))) =
           length (filter (is_id_read c) (new_events w (snd (ak09916_setup c w))))
     \<and> 1 \<le> length (filter (is_id_read c) (new_events w (snd (ak09916_setup c w))))
     \<and> length (filter (is_id_read c) (new_events w (snd (ak09916_setup c w)))) \<le> 20"
proof (cases rule: setup_cases [of w c])
  case (1 n)
  have ev: "new_events w (snd (ak09916_setup c w)) =
      failed_events c (rx w) (rxpos w) 20 n @ attempt_events c @ done_events c"
    by (simp add: 1(4))
  show ?thesis
    unfolding ev using 1(1)
    by (simp add: enables_failed enables_attempt enables_done id_reads_failed id_reads_attempt
        id_reads_done clocks_failed [OF assms(3)] clocks_attempt [OF assms(3)]
        clocks_done [OF assms(3)])
next
  case 2
  have ev: "new_events w (snd (ak09916_setup c w)) =
      failed_events c (rx w) (rxpos w) 20 20 @ disable_events c"
    by (simp add: 2(2))
  show ?thesis
    unfolding ev
    by (simp add: enables_failed enables_disable [OF assms(1)] id_reads_failed id_reads_disable
        clocks_failed [OF assms(3)] clocks_disable [OF assms(2)])
qed

theorem master_configured_once_per_attempt_witness:
  "length (filter (is_master_enable sample_macros)
     (new_events silent_world (snd (ak09916_setup sample_macros silent_world)))) = 20
   \<and> length (filter (is_master_clock sample_macros)
     (new_events silent_world (snd (ak09916_setup sample_macros silent_world)))) = 20"
proof -
  have en: "BIT_I2C_MST_EN sample_macros \<noteq> 0"
    by (simp add: sample_fields)
  have clk: "BIT_I2C_MST_P_NSR sample_macros OR ICM_BITS_I2C_MST_CLOCK_400HZ sample_macros \<noteq> 0"
    by (simp add: sample_fields)
  have regs: "ICMREG_20948_I2C_MST_CTRL sample_macros \<notin>
      {ICMREG_20948_I2C_SLV0_CTRL sample_macros, ICMREG_20948_I2C_SLV0_DO sample_macros,
       ICMREG_20948_I2C_SLV0_ADDR sample_macros, ICMREG_20948_I2C_SLV0_REG sample_macros}"
    by (simp add: sample_fields)
  have never: "\<forall>j<20. rx silent_world (rxpos silent_world + j)
      \<noteq> AK09916_DEVICE_ID sample_macros"
    by (simp add: silent_world_def sample_fields)
  have reads: "length (filter (is_id_read sample_macros)
      (new_events silent_world (snd (ak09916_setup sample_macros silent_world)))) = 20"
    by (simp add: setup_failure [OF never] id_reads_failed id_reads_disable)
  show ?thesis
    using master_configured_once_per_attempt [OF en clk regs, of silent_world]
    unfolding reads by simp
qed

text \<open>
  Claim C8 as the specification words it, programmed exactly once whatever the number of
  attempts, fails when the identity matches on the second read only: the master
  interface is then enabled twice and its clock is programmed twice.
\<close>

theorem master_configured_once_counterexample:
  "length (filter (is_master_enable sample_macros)
     (new_events second_try_world (snd (ak09916_setup sample_macros second_try_world)))) = 2
   \<and> length (filter (is_master_clock sample_macros)
     (new_events second_try_world (snd (ak09916_setup sample_macros second_try_world)))) = 2"
proof -
  have miss: "\<forall>j<1. rx second_try_world (rxpos second_try_world + j)
      \<noteq> AK09916_DEVICE_ID sample_macros"
    by (simp add: second_try_world_def sample_fields)
  have hit: "rx second_try_world (rxpos second_try_world + 1) = AK09916_DEVICE_ID sample_macros"
    by (simp add: second_try_world_def sample_fields)
  have regs: "ICMREG_20948_I2C_MST_CTRL sample_macros \<notin>
      {ICMREG_20948_I2C_SLV0_CTRL sample_macros, ICMREG_20948_I2C_SLV0_DO sample_macros,
       ICMREG_20948_I2C_SLV0_ADDR sample_macros, ICMREG_20948_I2C_SLV0_REG sample_macros}"
    by (simp add: sample_fields)
  have ev: "new_events second_try_world (snd (ak09916_setup sample_macros second_try_world)) =
      failed_events sample_macros (rx second_try_world) (rxpos second_try_world) 20 1 @
      attempt_events sample_macros @ done_events sample_macros"
    by (simp add: setup_success [OF miss hit])
  show ?thesis
    unfolding ev
    by (simp add: enables_failed enables_attempt enables_done
        clocks_failed [OF regs] clocks_attempt [OF regs] clocks_done [OF regs]
        del: failed_events.simps)
qed

subsection \<open>A failed identity check\<close>

text \<open>
  Claim C9, as amended. On a failed identity check the loop decrements the retry counter,
  reports the identity read and the decremented counter, issues one read-modify-write of
  the user-control register with an empty clear mask and the master-reset bit as set
  mask (the bit is set; nothing is cleared), waits 200 microseconds and, while the
  decremented counter is positive, runs the loop body again, which starts with the
  configuration of the master interface. The counter starts at 20: in
  \<^verbatim>\<open>ak09916_setup\<close> the first failed check reports 19.
\<close>

theorem failed_check_sets_reset_bit_and_retries:
  assumes "rx w (rxpos w) \<noteq> AK09916_DEVICE_ID c"
  shows "ak09916_setup_loop c retries w =
           (let w' = w\<lparr>trace := trace w @ attempt_events c @
                         [PX4_WARN (rx w (rxpos w)) (retries - 1),
                          Parent_modify_reg (ICMREG_20948_USER_CTRL c) 0 (BIT_I2C_MST_RST c),
                          Px4_usleep 200],
                       rxpos := rxpos w + 1\<rparr>
            in if 0 < retries - 1 then ak09916_setup_loop c (retries - 1) w'
               else (retries - 1, w'))
     \<and> (\<exists>rest. new_events w (snd (ak09916_setup c w)) =
           attempt_events c @
           [PX4_WARN (rx w (rxpos w)) 19,
            Parent_modify_reg (ICMREG_20948_USER_CTRL c) 0 (BIT_I2C_MST_RST c),
            Px4_usleep 200] @ rest)"
proof
  show "ak09916_setup_loop c retries w =
           (let w' = w\<lparr>trace := trace w @ attempt_events c @
                         [PX4_WARN (rx w (rxpos w)) (retries - 1),
                          Parent_modify_reg (ICMREG_20948_USER_CTRL c) 0 (BIT_I2C_MST_RST c),
                          Px4_usleep 200],
                       rxpos := rxpos w + 1\<rparr>
            in if 0 < retries - 1 then ak09916_setup_loop c (retries - 1) w'
               else (retries - 1, w'))"
    by (simp add: loop_step_fail [OF assms] extend_def recover_events_def)
  have head: "\<exists>rest. failed_events c (rx w) (rxpos w) 20 (Suc m) @ more =
           attempt_events c @
           [PX4_WARN (rx w (rxpos w)) 19,
            Parent_modify_reg (ICMREG_20948_USER_CTRL c) 0 (BIT_I2C_MST_RST c),
            Px4_usleep 200] @ rest" for m more
    by (simp add: recover_events_def)
  show "\<exists>rest. new_events w (snd (ak09916_setup c w)) =
           attempt_events c @
           [PX4_WARN (rx w (rxpos w)) 19,
            Parent_modify_reg (ICMREG_20948_USER_CTRL c) 0 (BIT_I2C_MST_RST c),
            Px4_usleep 200] @ rest"
  proof (cases rule: setup_cases [of w c])
    case (1 n)
    from assms 1(3) obtain m where n: "n = Suc m"
      by (cases n) auto
    show ?thesis
      using head [of m "attempt_events c @ done_events c"] by (simp add: 1(4) n)
  next
    case 2
    have "(20::nat) = Suc 19"
      by simp
    then show ?thesis
      using head [of 19 "disable_events c"] by (simp add: 2(2))
  qed
qed

theorem failed_check_sets_reset_bit_and_retries_witness:
  "rx second_try_world (rxpos second_try_world) \<noteq> AK09916_DEVICE_ID sample_macros
   \<and> (\<exists>rest. new_events second_try_world (snd (ak09916_setup sample_macros second_try_world)) =
         attempt_events sample_macros @
         [PX4_WARN 0 19, Parent_modify_reg 0x03 0 0x02, Px4_usleep 200] @ rest)"
proof -
  have miss: "rx second_try_world (rxpos second_try_world) \<noteq> AK09916_DEVICE_ID sample_macros"
    by (simp add: second_try_world_def sample_fields)
  show ?thesis
    using miss failed_check_sets_reset_bit_and_retries [OF miss, of 20]
    by (simp add: second_try_world_def sample_fields)
qed

text \<open>
  Claim C9 as the specification words it, the master-reset bit cleared and then set
  again, fails when the first identity read is wrong and the second is right: the trace
  has one operation that sets the master-reset bit and none that clears it.
\<close>

theorem failed_check_clears_reset_bit_counterexample:
  "rx second_try_world 0 \<noteq> AK09916_DEVICE_ID sample_macros
   \<and> filter (clears_master_reset sample_macros)
       (new_events second_try_world (snd (ak09916_setup sample_macros second_try_world))) = []
   \<and> filter (is_master_reset sample_macros)
       (new_events second_try_world (snd (ak09916_setup sample_macros second_try_world))) =
       [Parent_modify_reg 0x03 0 0x02]"
proof -
  have miss: "\<forall>j<1. rx second_try_world (rxpos second_try_world + j)
      \<noteq> AK09916_DEVICE_ID sample_macros"
    by (simp add: second_try_world_def sample_fields)
  have hit: "rx second_try_world (rxpos second_try_world + 1) = AK09916_DEVICE_ID sample_macros"
    by (simp add: second_try_world_def sample_fields)
  have ev: "new_events second_try_world (snd (ak09916_setup sample_macros second_try_world)) =
      failed_events sample_macros (rx second_try_world) (rxpos second_try_world) 20 1 @
      attempt_events sample_macros @ done_events sample_macros"
    by (simp add: setup_success [OF miss hit])
  show ?thesis
    unfolding ev
    by (simp add: event_list_defs sample_fields second_try_world_def)
qed

end
